theory Spec2Isabelle
  imports Complex_Main
begin

section \<open>JavaScript strings\<close>

text \<open>
  A JavaScript string is modelled as a \<^typ>\<open>string\<close>, one \<^typ>\<open>char\<close> per code unit.
  The helpers below are the built-in string operations the reporters call.
\<close>

abbreviation NL :: char where
  "NL \<equiv> CHR 0x0A"

abbreviation CR :: char where
  "CR \<equiv> CHR 0x0D"

abbreviation ESC :: char where
  "ESC \<equiv> CHR 0x1B"

abbreviation DQ :: char where
  "DQ \<equiv> CHR 0x22"

abbreviation BSL :: char where
  "BSL \<equiv> CHR 0x5C"

text \<open>\<^verbatim>\<open>str.split(sep)\<close> for a one-character separator: never an empty array.\<close>

fun split_on :: "char \<Rightarrow> string \<Rightarrow> string list" where
  "split_on c [] = [[]]"
| "split_on c (x # xs) =
     (if x = c then [] # split_on c xs
      else (case split_on c xs of
              [] \<Rightarrow> [[x]]
            | l # ls \<Rightarrow> (x # l) # ls))"

text \<open>\<^verbatim>\<open>arr.join(sep)\<close>.\<close>

fun join :: "string \<Rightarrow> string list \<Rightarrow> string" where
  "join sep [] = []"
| "join sep [x] = x"
| "join sep (x # y # zs) = x @ sep @ join sep (y # zs)"

text \<open>
  \<^verbatim>\<open>str.indexOf(pat)\<close>: the position of the first occurrence; \<open>None\<close> stands for
  the result \<^verbatim>\<open>-1\<close>.
\<close>

fun indexOf :: "string \<Rightarrow> string \<Rightarrow> nat option" where
  "indexOf [] pat = (if pat = [] then Some 0 else None)"
| "indexOf (c # cs) pat =
     (if take (length pat) (c # cs) = pat then Some 0
      else map_option Suc (indexOf cs pat))"

text \<open>\<^verbatim>\<open>line.match(/pat/)\<close> for a literal pattern: does the text occur in the line.\<close>

definition matches_literal :: "string \<Rightarrow> string \<Rightarrow> bool" where
  "matches_literal line pat = (indexOf line pat \<noteq> None)"

text \<open>
  \<^verbatim>\<open>str.replace(/^/gm, indent)\<close>: the multiline anchor matches at the start of the
  input and after every line terminator (line feed and carriage return among the code
  units modelled here).
\<close>

definition is_line_terminator :: "char \<Rightarrow> bool" where
  "is_line_terminator c = (c = NL \<or> c = CR)"

fun after_terminators :: "string \<Rightarrow> string \<Rightarrow> string" where
  "after_terminators ind [] = []"
| "after_terminators ind (c # cs) =
     (if is_line_terminator c then c # ind @ after_terminators ind cs
      else c # after_terminators ind cs)"

definition indent_lines :: "string \<Rightarrow> string \<Rightarrow> string" where
  "indent_lines ind s = ind @ after_terminators ind s"

text \<open>\<^verbatim>\<open>String(n)\<close> for an integral number.\<close>

definition digit_char :: "nat \<Rightarrow> char" where
  "digit_char d = char_of (48 + d)"

fun nat_to_string :: "nat \<Rightarrow> string" where
  "nat_to_string n =
     (if n < 10 then [digit_char n]
      else nat_to_string (n div 10) @ [digit_char (n mod 10)])"

declare nat_to_string.simps [simp del]

definition number_to_string :: "int \<Rightarrow> string" where
  "number_to_string i =
     (if i < 0 then CHR ''-'' # nat_to_string (nat (- i)) else nat_to_string (nat i))"

text \<open>\<^verbatim>\<open>'  '.repeat(n)\<close>.\<close>

definition repeat_str :: "string \<Rightarrow> nat \<Rightarrow> string" where
  "repeat_str s n = concat (replicate n s)"

section \<open>Exceptions\<close>

text \<open>
  A thrown exception is a value. \<open>RangeError\<close> is also what the engine raises when the
  call stack is exhausted, \<open>ReferenceError\<close> what it raises when an identifier resolves
  to no binding; \<open>Thrown\<close> is any other value raised by a library or by user code.
\<close>

datatype exn = TypeError | RangeError | SyntaxError | ReferenceError | Thrown string

section \<open>Tests and speed classification (Base, the pass handler)\<close>

datatype speed = Slow | Medium | Fast

text \<open>A thrown or reported value: undefined or null, a primitive string, or an object.\<close>

datatype jsval = Undefined | Prim string | Ref nat

definition truthy :: "jsval \<Rightarrow> bool" where
  "truthy v = (case v of Undefined \<Rightarrow> False | Prim s \<Rightarrow> s \<noteq> [] | Ref a \<Rightarrow> True)"

text \<open>
  A test object, as far as the reporters read and write it: \<open>test_titlePath\<close>,
  \<open>test_slow\<close> are the results of the methods \<^verbatim>\<open>titlePath()\<close> and \<^verbatim>\<open>slow()\<close>,
  durations are milliseconds.
\<close>

record test =
  test_titlePath :: "string list"
  test_duration :: int
  test_slow :: int
  test_speed :: "speed option"
  test_err :: jsval

text \<open>The handler of \<^verbatim>\<open>EVENT_TEST_PASS\<close>; \<^verbatim>\<open>test.slow() / 2\<close> is a real division.\<close>

definition on_pass :: "test \<Rightarrow> test" where
  "on_pass t =
     (if test_duration t > test_slow t then t\<lparr>test_speed := Some Slow\<rparr>
      else if real_of_int (test_duration t) > real_of_int (test_slow t) / 2
        then t\<lparr>test_speed := Some Medium\<rparr>
      else t\<lparr>test_speed := Some Fast\<rparr>)"

section \<open>Configuration and colors (Base)\<close>

text \<open>
  The module-level settings of the base reporter: \<^verbatim>\<open>useColors\<close>, \<^verbatim>\<open>inlineDiffs\<close> and
  \<^verbatim>\<open>maxDiffSize\<close>. \<open>callDepth\<close> is the number of nested calls the engine allows a
  recursive function before it raises \<open>RangeError\<close>.

  \<open>exports_hideDiff\<close> is what the expression \<^verbatim>\<open>exports.hideDiff\<close> of \<^verbatim>\<open>list\<close> finds.
  The module declares no binding \<^verbatim>\<open>exports\<close>, so the identifier resolves on the global
  object only: \<open>None\<close> when the global object has no such property, which is the
  module as it is written and loaded, and the read raises \<open>ReferenceError\<close>; \<open>Some b\<close>
  when the host has put an object there, \<open>b\<close> telling whether its \<^verbatim>\<open>hideDiff\<close> is truthy.
\<close>

record config =
  useColors :: bool
  inlineDiffs :: bool
  maxDiffSize :: int
  exports_hideDiff :: "bool option"
  callDepth :: nat

definition colors :: "(string \<times> string) list" where
  "colors =
     [(''pass'', ''90''), (''fail'', ''31''), (''bright pass'', ''92''),
      (''bright fail'', ''91''), (''bright yellow'', ''93''), (''pending'', ''36''),
      (''suite'', ''0''), (''error title'', ''0''), (''error message'', ''31''),
      (''error stack'', ''90''), (''checkmark'', ''32''), (''fast'', ''90''),
      (''medium'', ''33''), (''slow'', ''31''), (''green'', ''32''), (''light'', ''90''),
      (''diff gutter'', ''90''), (''diff added'', ''32''), (''diff removed'', ''31''),
      (''diff added inline'', ''30;42''), (''diff removed inline'', ''30;41'')]"

definition color_code :: "string \<Rightarrow> string" where
  "color_code type = (case map_of colors type of None \<Rightarrow> ''undefined'' | Some c \<Rightarrow> c)"

definition color :: "config \<Rightarrow> string \<Rightarrow> string \<Rightarrow> string" where
  "color cfg type str =
     (if useColors cfg then ESC # ''['' @ color_code type @ ''m'' @ str @ ESC # ''[0m''
      else str)"

definition colorLines :: "config \<Rightarrow> string \<Rightarrow> string \<Rightarrow> string" where
  "colorLines cfg name str = join [NL] (map (color cfg name) (split_on NL str))"

section \<open>The diff engine (Base)\<close>

text \<open>
  The packages \<^verbatim>\<open>diff\<close> and \<^verbatim>\<open>ms\<close> and the module \<^verbatim>\<open>utils\<close> are not part of
  the repository: the functions the reporters call from them are parameters. The two
  entry points of \<^verbatim>\<open>diff\<close> may raise. A \<open>change\<close> is one element of the array
  \<^verbatim>\<open>diffWordsWithSpace\<close> returns.
\<close>

record change =
  ch_added :: bool
  ch_removed :: bool
  ch_value :: string

text \<open>
  A value an assertion error carries as \<^verbatim>\<open>actual\<close> or \<^verbatim>\<open>expected\<close>: undefined, a
  primitive string, or any other value, given by its \<^verbatim>\<open>Object.prototype.toString\<close>
  tag and an opaque identity.
\<close>

datatype jsdata = DUndefined | DString string | DOther string nat

record externals =
  createPatch :: "string \<Rightarrow> string \<Rightarrow> string \<Rightarrow> exn + string"
  diffWordsWithSpace :: "string \<Rightarrow> string \<Rightarrow> exn + change list"
  stringify :: "jsdata \<Rightarrow> string"
  milliseconds :: "int \<Rightarrow> string"
  escape :: "string \<Rightarrow> string"

text \<open>
  \<^verbatim>\<open>pad(str, len)\<close>: \<^verbatim>\<open>Array(n)\<close> raises \<open>RangeError\<close> for a negative \<open>n\<close>, and
  \<^verbatim>\<open>Array(n).join(' ')\<close> is \<open>n - 1\<close> blanks.
\<close>

definition pad :: "string \<Rightarrow> nat \<Rightarrow> exn + string" where
  "pad str len =
     (if int len - int (length str) + 1 < 0 then Inl RangeError
      else Inr (replicate (len - length str) CHR '' '' @ str))"

definition errorDiff :: "config \<Rightarrow> externals \<Rightarrow> string \<Rightarrow> string \<Rightarrow> exn + string" where
  "errorDiff cfg ext actual expected =
     (case diffWordsWithSpace ext actual expected of
        Inl e \<Rightarrow> Inl e
      | Inr changes \<Rightarrow>
          Inr (concat (map (\<lambda>str.
                 if ch_added str then colorLines cfg ''diff added inline'' (ch_value str)
                 else if ch_removed str then colorLines cfg ''diff removed inline'' (ch_value str)
                 else ch_value str) changes)))"

text \<open>The numbered lines of \<^verbatim>\<open>inlineDiff\<close>: the map over \<open>(line, index)\<close>.\<close>

fun number_lines :: "nat \<Rightarrow> nat \<Rightarrow> string list \<Rightarrow> exn + string list" where
  "number_lines width index [] = Inr []"
| "number_lines width index (line # rest) =
     (case pad (number_to_string (int index + 1)) width of
        Inl e \<Rightarrow> Inl e
      | Inr p \<Rightarrow>
          (case number_lines width (Suc index) rest of
             Inl e \<Rightarrow> Inl e
           | Inr ls \<Rightarrow> Inr ((p @ '' | '' @ line) # ls)))"

definition inlineDiff :: "config \<Rightarrow> externals \<Rightarrow> string \<Rightarrow> string \<Rightarrow> exn + string" where
  "inlineDiff cfg ext actual expected =
     (case errorDiff cfg ext actual expected of
        Inl e \<Rightarrow> Inl e
      | Inr msg0 \<Rightarrow>
          (let lines = split_on NL msg0;
               numbered =
                 (if length lines > 4
                  then (case number_lines (length (number_to_string (int (length lines)))) 0 lines of
                          Inl e \<Rightarrow> Inl e
                        | Inr ls \<Rightarrow> Inr (join [NL] ls))
                  else Inr msg0)
           in case numbered of
                Inl e \<Rightarrow> Inl e
              | Inr msg1 \<Rightarrow>
                  Inr (indent_lines ''      ''
                         ([NL] @ color cfg ''diff removed inline'' ''actual'' @ '' '' @
                          color cfg ''diff added inline'' ''expected'' @ [NL, NL] @ msg1 @ [NL]))))"

definition cleanUp :: "config \<Rightarrow> string \<Rightarrow> string option" where
  "cleanUp cfg line =
     (if take 1 line = ''+'' then Some (''      '' @ colorLines cfg ''diff added'' line)
      else if take 1 line = ''-'' then Some (''      '' @ colorLines cfg ''diff removed'' line)
      else if matches_literal line ''@@'' then Some ''--''
      else if matches_literal line (BSL # '' No newline'') then None
      else Some (''      '' @ line))"

definition unifiedDiff :: "config \<Rightarrow> externals \<Rightarrow> string \<Rightarrow> string \<Rightarrow> exn + string" where
  "unifiedDiff cfg ext actual expected =
     (case createPatch ext ''string'' actual expected of
        Inl e \<Rightarrow> Inl e
      | Inr msg \<Rightarrow>
          (let lines = drop 5 (split_on NL msg)
           in Inr ([NL] @ ''      '' @ colorLines cfg ''diff added'' ''+ expected'' @ '' '' @
                   colorLines cfg ''diff removed'' ''- actual'' @ [NL, NL] @
                   join [NL] (List.map_filter (cleanUp cfg) lines))))"

definition truncation_notice :: "int \<Rightarrow> string" where
  "truncation_notice maxLen =
     [NL] @ ''      [mocha] output truncated to '' @ number_to_string maxLen @
     '' characters, see '' @ [DQ] @ ''maxDiffSize'' @ [DQ] @ '' reporter-option'' @ [NL]"

text \<open>The body of the \<^verbatim>\<open>try\<close> block of \<^verbatim>\<open>generateDiff\<close>.\<close>

definition generateDiff_try :: "config \<Rightarrow> externals \<Rightarrow> string \<Rightarrow> string \<Rightarrow> exn + string" where
  "generateDiff_try cfg ext actual expected =
     (let maxLen = maxDiffSize cfg;
          skipped = (if maxLen > 0
                     then max (int (length actual) - maxLen) (int (length expected) - maxLen)
                     else 0);
          actual' = (if maxLen > 0 then take (nat maxLen) actual else actual);
          expected' = (if maxLen > 0 then take (nat maxLen) expected else expected)
      in case (if inlineDiffs cfg then inlineDiff cfg ext actual' expected'
               else unifiedDiff cfg ext actual' expected') of
           Inl e \<Rightarrow> Inl e
         | Inr result \<Rightarrow>
             Inr (if skipped > 0 then result @ truncation_notice maxLen else result))"

text \<open>The message built in the \<^verbatim>\<open>catch\<close> block.\<close>

definition diff_failed_notice :: "config \<Rightarrow> string" where
  "diff_failed_notice cfg =
     [NL] @ ''      '' @ color cfg ''diff added'' ''+ expected'' @ '' '' @
     color cfg ''diff removed'' ''- actual:  failed to generate Mocha diff'' @ [NL]"

definition generateDiff :: "config \<Rightarrow> externals \<Rightarrow> string \<Rightarrow> string \<Rightarrow> exn + string" where
  "generateDiff cfg ext actual expected =
     (case generateDiff_try cfg ext actual expected of
        Inl err \<Rightarrow> Inr (diff_failed_notice cfg)
      | Inr result \<Rightarrow> Inr result)"

section \<open>Error objects and the flattening of cause chains (Base)\<close>

text \<open>
  An object that was thrown, as far as the reporters inspect it. \<open>err_inspect\<close> is the
  string \<^verbatim>\<open>err.inspect() + ''\<close> when \<^verbatim>\<open>err.inspect\<close> is a function, \<open>None\<close> stands
  for an undefined property, \<open>is_Error\<close> is \<^verbatim>\<open>err instanceof Error\<close>.
\<close>

record err_obj =
  is_Error :: bool
  err_inspect :: "string option"
  err_message :: "string option"
  err_stack :: "string option"
  err_cause :: jsval
  err_uncaught :: bool
  err_showDiff :: "bool option"
  err_actual :: jsdata
  err_expected :: jsdata
  err_multiple :: "jsval list option"

type_synonym heap = "nat \<Rightarrow> err_obj"

text \<open>A primitive has none of the properties.\<close>

definition no_props :: err_obj where
  "no_props =
     \<lparr>is_Error = False, err_inspect = None, err_message = None, err_stack = None,
      err_cause = Undefined, err_uncaught = False, err_showDiff = None,
      err_actual = DUndefined, err_expected = DUndefined, err_multiple = None\<rparr>"

text \<open>Reading a property of undefined or null raises \<open>TypeError\<close>: \<open>None\<close> here.\<close>

definition props_of :: "heap \<Rightarrow> jsval \<Rightarrow> err_obj option" where
  "props_of h v = (case v of Undefined \<Rightarrow> None | Prim s \<Rightarrow> Some no_props | Ref a \<Rightarrow> Some (h a))"

record full_error_stack =
  fes_message :: string
  fes_msg :: string
  fes_stack :: string

definition seen_has :: "jsval set option \<Rightarrow> jsval \<Rightarrow> bool" where
  "seen_has seen err = (case seen of None \<Rightarrow> False | Some s \<Rightarrow> err \<in> s)"

definition seen_add :: "jsval set option \<Rightarrow> jsval \<Rightarrow> jsval set option" where
  "seen_add seen err = Some (insert err (case seen of None \<Rightarrow> {} | Some s \<Rightarrow> s))"

definition error_message :: "err_obj \<Rightarrow> string" where
  "error_message ob =
     (case err_inspect ob of
        Some s \<Rightarrow> s
      | None \<Rightarrow> (case err_message ob of Some m \<Rightarrow> m | None \<Rightarrow> []))"

definition raw_stack :: "err_obj \<Rightarrow> string \<Rightarrow> string" where
  "raw_stack ob message =
     (case err_stack ob of
        Some s \<Rightarrow> (if s \<noteq> [] then s else message)
      | None \<Rightarrow> message)"

text \<open>
  \<^verbatim>\<open>getFullErrorStack(err, seen)\<close>. The first argument is the number of nested calls
  the engine still allows: the recursive call at depth zero raises \<open>RangeError\<close>.
\<close>

fun getFullErrorStack ::
  "nat \<Rightarrow> heap \<Rightarrow> jsval \<Rightarrow> jsval set option \<Rightarrow> exn + full_error_stack" where
  "getFullErrorStack depth h err seen =
     (if seen_has seen err
      then Inr \<lparr>fes_message = [], fes_msg = ''<circular>'', fes_stack = []\<rparr>
      else case props_of h err of
        None \<Rightarrow> Inl TypeError
      | Some ob \<Rightarrow>
          (let message = error_message ob;
               stack = raw_stack ob message
           in case (if message \<noteq> [] then indexOf stack message else None) of
                None \<Rightarrow> Inr \<lparr>fes_message = message, fes_msg = message, fes_stack = stack\<rparr>
              | Some i \<Rightarrow>
                  (let index = i + length message;
                       msg = take index stack;
                       stack' = drop (index + 1) stack
                   in if truthy (err_cause ob)
                      then (case depth of
                              0 \<Rightarrow> Inl RangeError
                            | Suc depth' \<Rightarrow>
                                (case getFullErrorStack depth' h (err_cause ob) (seen_add seen err) of
                                   Inl e \<Rightarrow> Inl e
                                 | Inr causeStack \<Rightarrow>
                                     Inr \<lparr>fes_message = message, fes_msg = msg,
                                          fes_stack = stack' @ [NL] @ ''   Caused by: '' @
                                            fes_msg causeStack @
                                            (if fes_stack causeStack \<noteq> []
                                             then [NL] @ fes_stack causeStack else [])\<rparr>))
                      else Inr \<lparr>fes_message = message, fes_msg = msg, fes_stack = stack'\<rparr>)))"

declare getFullErrorStack.simps [simp del]

section \<open>Whether to show a diff (Base)\<close>

definition type_tag :: "jsdata \<Rightarrow> string" where
  "type_tag d =
     (case d of
        DUndefined \<Rightarrow> ''[object Undefined]''
      | DString s \<Rightarrow> ''[object String]''
      | DOther tag ident \<Rightarrow> tag)"

definition sameType :: "jsdata \<Rightarrow> jsdata \<Rightarrow> bool" where
  "sameType a b = (type_tag a = type_tag b)"

definition showDiff_obj :: "err_obj \<Rightarrow> bool" where
  "showDiff_obj ob =
     (err_showDiff ob \<noteq> Some False \<and> sameType (err_actual ob) (err_expected ob) \<and>
      err_expected ob \<noteq> DUndefined)"

definition showDiff :: "heap \<Rightarrow> jsval \<Rightarrow> bool" where
  "showDiff h err =
     (case err of
        Undefined \<Rightarrow> False
      | Prim s \<Rightarrow> s \<noteq> [] \<and> showDiff_obj no_props
      | Ref a \<Rightarrow> showDiff_obj (h a))"

definition isString :: "jsdata \<Rightarrow> bool" where
  "isString d = (case d of DString s \<Rightarrow> True | _ \<Rightarrow> False)"

text \<open>
  \<^verbatim>\<open>stringifyDiffObjs(err)\<close>, on the object it mutates; \<^verbatim>\<open>utils.isString\<close> is
  \<^verbatim>\<open>typeof\<close> being \<^verbatim>\<open>'string'\<close>.
\<close>

definition stringifyDiffObjs :: "externals \<Rightarrow> err_obj \<Rightarrow> err_obj" where
  "stringifyDiffObjs ext ob =
     (if isString (err_actual ob) \<and> isString (err_expected ob) then ob
      else ob\<lparr>err_actual := DString (stringify ext (err_actual ob)),
              err_expected := DString (stringify ext (err_expected ob))\<rparr>)"

text \<open>The same on the store; it is only called where \<open>showDiff\<close> holds, on an object.\<close>

definition stringify_err :: "externals \<Rightarrow> heap \<Rightarrow> jsval \<Rightarrow> heap" where
  "stringify_err ext h err =
     (case err of Ref a \<Rightarrow> h(a := stringifyDiffObjs ext (h a)) | _ \<Rightarrow> h)"

text \<open>
  The characters of a string value. \<^verbatim>\<open>list\<close> passes \<^verbatim>\<open>err.actual\<close> and
  \<^verbatim>\<open>err.expected\<close> to \<^verbatim>\<open>generateDiff\<close> right after \<^verbatim>\<open>stringifyDiffObjs\<close>, when
  both are strings.
\<close>

definition string_of :: "jsdata \<Rightarrow> string" where
  "string_of d = (case d of DString s \<Rightarrow> s | _ \<Rightarrow> [])"

section \<open>The reporter state and the fail handler (Base)\<close>

text \<open>
  Tests and thrown objects are shared by reference: the state holds a store of each,
  and \<open>failures\<close> lists the tests by identity, in the order of the fail events.
\<close>

record reporter =
  tests :: "nat \<Rightarrow> test"
  errs :: heap
  failures :: "nat list"

definition instanceof_Error :: "heap \<Rightarrow> jsval \<Rightarrow> bool" where
  "instanceof_Error h err = (case err of Ref a \<Rightarrow> is_Error (h a) | _ \<Rightarrow> False)"

text \<open>
  The handler of \<^verbatim>\<open>EVENT_TEST_FAIL\<close>. The module is in strict mode: assigning the
  property \<^verbatim>\<open>multiple\<close> on a primitive raises \<open>TypeError\<close>.
\<close>

definition on_fail :: "externals \<Rightarrow> reporter \<Rightarrow> nat \<Rightarrow> jsval \<Rightarrow> exn + reporter" where
  "on_fail ext r t err =
     (let h = (if showDiff (errs r) err then stringify_err ext (errs r) err else errs r);
          test = tests r t
      in if truthy (test_err test) \<and> instanceof_Error h err
         then (case test_err test of
                 Ref a \<Rightarrow>
                   Inr (r\<lparr>errs := h(a := (h a)\<lparr>err_multiple :=
                                   Some ((case err_multiple (h a) of None \<Rightarrow> [] | Some m \<Rightarrow> m) @ [err])\<rparr>),
                          failures := failures r @ [t]\<rparr>)
               | _ \<Rightarrow> Inl TypeError)
         else Inr (r\<lparr>tests := (tests r)(t := test\<lparr>test_err := err\<rparr>),
                    errs := h,
                    failures := failures r @ [t]\<rparr>))"

section \<open>The failure listing and the epilogue (Base)\<close>

text \<open>One call of \<^verbatim>\<open>consoleLog\<close> is the list of its arguments.\<close>

datatype arg = Str string | Num int

definition fmt_plain :: "config \<Rightarrow> string" where
  "fmt_plain cfg =
     color cfg ''error title'' (''  %s) %s:'' @ [NL]) @
     color cfg ''error message'' ''     %s'' @
     color cfg ''error stack'' ([NL] @ ''%s'' @ [NL])"

definition fmt_diff :: "config \<Rightarrow> string" where
  "fmt_diff cfg =
     color cfg ''error title'' (''  %s) %s:'' @ [NL] @ ''%s'') @
     color cfg ''error stack'' ([NL] @ ''%s'' @ [NL])"

text \<open>\<^verbatim>\<open>message.match(/^([^:]+): expected/)\<close>: the first group when it matches.\<close>

definition expected_match :: "string \<Rightarrow> string option" where
  "expected_match message =
     (let grp = takeWhile (\<lambda>c. c \<noteq> CHR '':'') message;
          rest = dropWhile (\<lambda>c. c \<noteq> CHR '':'') message
      in if grp \<noteq> [] \<and> take 10 rest = '': expected'' then Some grp else None)"

text \<open>The loop over \<^verbatim>\<open>test.titlePath()\<close>.\<close>

fun title_lines :: "nat \<Rightarrow> string list \<Rightarrow> string" where
  "title_lines index [] = []"
| "title_lines index (str # rest) =
     (if index \<noteq> 0 then [NL] @ ''     '' else []) @ repeat_str ''  '' index @ str @
     title_lines (Suc index) rest"

text \<open>
  The choice of the error to print: the locals \<^verbatim>\<open>multipleTest\<close> and
  \<^verbatim>\<open>multipleErr\<close> of \<^verbatim>\<open>list\<close> are the pair \<open>loc\<close>; \<^verbatim>\<open>shift()\<close> of an empty array
  is undefined.
\<close>

definition next_err ::
  "heap \<Rightarrow> (nat \<Rightarrow> test) \<Rightarrow> nat option \<times> jsval list \<Rightarrow> nat \<Rightarrow>
   jsval \<times> (nat option \<times> jsval list)" where
  "next_err h ts loc t =
     (let e = test_err (ts t)
      in case (if truthy e
               then (case props_of h e of None \<Rightarrow> None | Some ob \<Rightarrow> err_multiple ob)
               else None) of
           None \<Rightarrow> (e, loc)
         | Some m \<Rightarrow>
             (let loc' = (if fst loc = Some t then loc else (Some t, e # m))
              in case snd loc' of
                   [] \<Rightarrow> (Undefined, (fst loc', []))
                 | x # xs \<Rightarrow> (x, (fst loc', xs))))"

definition uncaught_of :: "heap \<Rightarrow> jsval \<Rightarrow> bool" where
  "uncaught_of h err = (case props_of h err of None \<Rightarrow> False | Some ob \<Rightarrow> err_uncaught ob)"

text \<open>
  The rest of the body of the \<^verbatim>\<open>forEach\<close> callback, for the chosen error: the
  arguments of the call of \<^verbatim>\<open>consoleLog\<close> and the store after
  \<^verbatim>\<open>stringifyDiffObjs\<close>. The condition \<^verbatim>\<open>!exports.hideDiff && showDiff(err)\<close> reads
  \<^verbatim>\<open>exports\<close> first, after \<^verbatim>\<open>getFullErrorStack\<close> and \<^verbatim>\<open>err.uncaught\<close>: where the
  identifier is unbound, \<open>ReferenceError\<close> ends the callback before anything is logged.
\<close>

definition render_failure ::
  "config \<Rightarrow> externals \<Rightarrow> heap \<Rightarrow> test \<Rightarrow> int \<Rightarrow> jsval \<Rightarrow> exn + (arg list \<times> heap)" where
  "render_failure cfg ext h test i err =
     (case getFullErrorStack (callDepth cfg) h err None of
        Inl e \<Rightarrow> Inl e
      | Inr fes \<Rightarrow>
          (let msg = (if uncaught_of h err then ''Uncaught '' @ fes_msg fes else fes_msg fes);
               stack = indent_lines ''  '' (fes_stack fes);
               testTitle = title_lines 0 (test_titlePath test)
           in case exports_hideDiff cfg of
                None \<Rightarrow> Inl ReferenceError
              | Some hideDiff \<Rightarrow>
                  if \<not> hideDiff \<and> showDiff h err
                  then (let h' = stringify_err ext h err;
                            head = [NL] @ ''      '' @
                              color cfg ''error message''
                                (case expected_match (fes_message fes) of
                                   Some grp \<Rightarrow> grp
                                 | None \<Rightarrow> msg)
                        in case props_of h' err of
                             None \<Rightarrow> Inl TypeError
                           | Some ob \<Rightarrow>
                               (case generateDiff cfg ext (string_of (err_actual ob))
                                       (string_of (err_expected ob)) of
                                  Inl e \<Rightarrow> Inl e
                                | Inr d \<Rightarrow>
                                    Inr ([Str (fmt_diff cfg), Num (i + 1), Str testTitle,
                                          Str (head @ d), Str stack], h')))
                  else Inr ([Str (fmt_plain cfg), Num (i + 1), Str testTitle, Str msg,
                             Str stack], h)))"

text \<open>
  \<^verbatim>\<open>failures.forEach\<close>: the calls of \<^verbatim>\<open>consoleLog\<close> made, the exception that ended
  the loop if one did, and the store.
\<close>

fun list_loop ::
  "config \<Rightarrow> externals \<Rightarrow> (nat \<Rightarrow> test) \<Rightarrow> nat list \<Rightarrow> int \<Rightarrow> nat option \<times> jsval list \<Rightarrow>
   heap \<Rightarrow> arg list list \<times> exn option \<times> heap" where
  "list_loop cfg ext ts [] i loc h = ([], None, h)"
| "list_loop cfg ext ts (t # rest) i loc h =
     (case next_err h ts loc t of
        (err, loc') \<Rightarrow>
          (case render_failure cfg ext h (ts t) i err of
             Inl e \<Rightarrow> ([], Some e, h)
           | Inr (call, h') \<Rightarrow>
               (case list_loop cfg ext ts rest (i + 1) loc' h' of
                  (out, x, hf) \<Rightarrow> (call # out, x, hf))))"

definition list_failures ::
  "config \<Rightarrow> externals \<Rightarrow> (nat \<Rightarrow> test) \<Rightarrow> nat list \<Rightarrow> heap \<Rightarrow>
   arg list list \<times> exn option \<times> heap" where
  "list_failures cfg ext ts fs h =
     (case list_loop cfg ext ts fs 0 (None, []) h of
        (out, x, hf) \<Rightarrow> ([] # out, x, hf))"

record stats =
  st_tests :: int
  st_passes :: int
  st_pending :: int
  st_failures :: int
  st_duration :: int

definition epilogue ::
  "config \<Rightarrow> externals \<Rightarrow> stats \<Rightarrow> reporter \<Rightarrow> arg list list \<times> exn option \<times> heap" where
  "epilogue cfg ext st r =
     (let passing =
            [[], [Str (color cfg ''bright pass'' '' '' @ color cfg ''green'' '' %d passing'' @
                       color cfg ''light'' '' (%s)''),
                  Num (st_passes st), Str (milliseconds ext (st_duration st))]];
          pending =
            (if st_pending st \<noteq> 0
             then [[Str (color cfg ''pending'' '' '' @ color cfg ''pending'' '' %d pending''),
                    Num (st_pending st)]]
             else [])
      in if st_failures st \<noteq> 0
         then (case list_failures cfg ext (tests r) (failures r) (errs r) of
                 (listed, x, hf) \<Rightarrow>
                   (passing @ pending @
                    [[Str (color cfg ''fail'' ''  %d failing''), Num (st_failures st)]] @ listed @
                    (case x of None \<Rightarrow> [[], []] | Some e \<Rightarrow> []),
                    x, hf))
         else (passing @ pending @ [[]], None, errs r))"

section \<open>The JSON reporter: cleanCycles\<close>









section \<open>The XUnit reporter: the root element\<close>

definition arg_to_string :: "arg \<Rightarrow> string" where
  "arg_to_string v = (case v of Str s \<Rightarrow> s | Num n \<Rightarrow> number_to_string n)"

text \<open>\<^verbatim>\<open>tag(name, attrs, close, content)\<close>; an absent content is the empty string.\<close>

definition tag :: "externals \<Rightarrow> string \<Rightarrow> (string \<times> arg) list \<Rightarrow> bool \<Rightarrow> string \<Rightarrow> string" where
  "tag ext name attrs close content =
     (let ending = (if close then ''/>'' else ''>'');
          pairs = map (\<lambda>(key, v). key @ ''='' @ [DQ] @ escape ext (arg_to_string v) @ [DQ]) attrs;
          tg = ''<'' @ name @ (if pairs \<noteq> [] then '' '' @ join '' '' pairs else []) @ ending
      in if content \<noteq> [] then tg @ content @ ''</'' @ name @ ending else tg)"

text \<open>
  The first line the handler of \<^verbatim>\<open>EVENT_RUN_END\<close> writes. The date
  \<^verbatim>\<open>new Date().toUTCString()\<close> and the text of the number
  \<^verbatim>\<open>stats.duration / 1000 || 0\<close> are parameters.
\<close>

definition testsuite_tag :: "externals \<Rightarrow> string \<Rightarrow> stats \<Rightarrow> string \<Rightarrow> string \<Rightarrow> string" where
  "testsuite_tag ext suiteName st timestamp time =
     tag ext ''testsuite''
       [(''name'', Str suiteName),
        (''tests'', Num (st_tests st)),
        (''failures'', Num 0),
        (''errors'', Num (st_failures st)),
        (''skipped'', Num (st_tests st - st_failures st - st_passes st)),
        (''timestamp'', Str timestamp),
        (''time'', Str time)]
       False []"

section \<open>Example inputs\<close>

text \<open>
  A store of thrown errors: 0 and 1 are each other's cause, 2 has no cause, 3 is its own
  cause; 5 and 6 are each other's cause and the message of 6 is not in its stack; 7 is a
  thrown object that is not an \<open>Error\<close>.
\<close>

definition example_errs :: heap where
  "example_errs =
     (\<lambda>a. no_props)
       (0 := no_props\<lparr>is_Error := True, err_message := Some ''boom'',
              err_stack := Some (''Error: boom'' @ [NL] @ ''    at f''), err_cause := Ref 1\<rparr>,
        1 := no_props\<lparr>is_Error := True, err_message := Some ''inner'',
              err_stack := Some (''Error: inner'' @ [NL] @ ''    at g''), err_cause := Ref 0\<rparr>,
        2 := no_props\<lparr>is_Error := True, err_message := Some ''late'',
              err_stack := Some (''Error: late'' @ [NL] @ ''    at k'')\<rparr>,
        3 := no_props\<lparr>is_Error := True, err_message := Some ''self'',
              err_stack := Some (''self'' @ [NL] @ ''    at s''), err_cause := Ref 3\<rparr>,
        5 := no_props\<lparr>is_Error := True, err_message := Some ''outer'',
              err_stack := Some (''Error: outer'' @ [NL] @ ''    at p''), err_cause := Ref 6\<rparr>,
        6 := no_props\<lparr>is_Error := True, err_message := Some ''renamed'',
              err_stack := Some (''Error: first'' @ [NL] @ ''    at q''), err_cause := Ref 5\<rparr>,
        7 := no_props\<lparr>err_message := Some ''plain''\<rparr>)"

definition example_test :: test where
  "example_test =
     \<lparr>test_titlePath = [''suite'', ''case''], test_duration = 40, test_slow = 75,
      test_speed = None, test_err = Undefined\<rparr>"

text \<open>
  A stand-in for the \<^verbatim>\<open>diff\<close> package that answers every call with the patch of a
  one-line change, one that raises on every call, and a configuration with a bound of two
  characters.
\<close>

definition example_patch :: "string \<Rightarrow> string \<Rightarrow> string \<Rightarrow> string" where
  "example_patch name a b =
     join [NL]
       [''Index: '' @ name, ''======'', ''--- '' @ name, ''+++ '' @ name, ''@@ -1 +1 @@'',
        ''-'' @ a, BSL # '' No newline at end of file'',
        ''+'' @ b, BSL # '' No newline at end of file'', []]"

definition example_ext :: externals where
  "example_ext =
     \<lparr>createPatch = (\<lambda>name a b. Inr (example_patch name a b)),
      diffWordsWithSpace = (\<lambda>a b. Inr [\<lparr>ch_added = False, ch_removed = True, ch_value = a\<rparr>,
                                       \<lparr>ch_added = True, ch_removed = False, ch_value = b\<rparr>]),
      stringify = (\<lambda>d. case d of DUndefined \<Rightarrow> ''[undefined]'' | DString s \<Rightarrow> s
                         | DOther t n \<Rightarrow> number_to_string (int n)),
      milliseconds = (\<lambda>n. number_to_string n @ ''ms''),
      escape = (\<lambda>s. s)\<rparr>"

definition failing_ext :: externals where
  "failing_ext =
     example_ext\<lparr>createPatch := (\<lambda>name a b. Inl (Thrown ''patch'')),
                 diffWordsWithSpace := (\<lambda>a b. Inl (Thrown ''words''))\<rparr>"

definition example_cfg :: config where
  "example_cfg =
     \<lparr>useColors = False, inlineDiffs = False, maxDiffSize = 2, exports_hideDiff = None,
      callDepth = 8\<rparr>"

text \<open>The same on a host whose global object has an \<^verbatim>\<open>exports\<close> without \<^verbatim>\<open>hideDiff\<close>.\<close>

definition hosted_cfg :: config where
  "hosted_cfg = example_cfg\<lparr>exports_hideDiff := Some False\<rparr>"

text \<open>
  A reporter whose test 0 failed once with error 2, and then again with error 0.
\<close>

definition example_reporter :: reporter where
  "example_reporter =
     \<lparr>tests = (\<lambda>t. example_test), errs = example_errs, failures = []\<rparr>"

definition failed_once :: reporter where
  "failed_once =
     (case on_fail example_ext example_reporter 0 (Ref 2) of Inl e \<Rightarrow> example_reporter | Inr r \<Rightarrow> r)"


text \<open>
  Two tests that failed in turn, each twice; and a test that failed with an error, then
  with an object that is not an \<open>Error\<close>, then with an error again.
\<close>

definition fail_all :: "reporter \<Rightarrow> (nat \<times> jsval) list \<Rightarrow> reporter" where
  "fail_all r events =
     fold (\<lambda>(t, err) r. case on_fail example_ext r t err of Inl e \<Rightarrow> r | Inr r' \<Rightarrow> r')
       events r"

definition interleaved :: reporter where
  "interleaved = fail_all example_reporter [(0, Ref 2), (1, Ref 3), (0, Ref 0), (1, Ref 1)]"

definition overwritten :: reporter where
  "overwritten = fail_all example_reporter [(0, Ref 2), (0, Ref 7), (0, Ref 0)]"

text \<open>
  A failed assertion on two numbers that \<^verbatim>\<open>list\<close> is the first to stringify, the
  reporter holding it, and the statistics of a run.
\<close>

definition diff_errs :: heap where
  "diff_errs =
     example_errs
       (4 := no_props\<lparr>is_Error := True, err_message := Some ''expected 1 to equal 2'',
              err_stack := Some (''AssertionError: expected 1 to equal 2'' @ [NL] @ ''    at t''),
              err_actual := DOther ''[object Number]'' 1,
              err_expected := DOther ''[object Number]'' 2\<rparr>)"

definition diff_reporter :: reporter where
  "diff_reporter =
     \<lparr>tests = (\<lambda>t. example_test\<lparr>test_err := Ref 4\<rparr>), errs = diff_errs, failures = [1]\<rparr>"

definition example_stats :: stats where
  "example_stats =
     \<lparr>st_tests = 3, st_passes = 2, st_pending = 0, st_failures = 1, st_duration = 130\<rparr>"




section \<open>Notions used in the theorems and their proofs\<close>

text \<open>
  \<open>stringified ext h h'\<close>: the store \<open>h'\<close> is \<open>h\<close> after \<^verbatim>\<open>stringifyDiffObjs\<close> on some
  of the objects for which \<open>showDiff\<close> holds.
\<close>

definition stringified :: "externals \<Rightarrow> heap \<Rightarrow> heap \<Rightarrow> bool" where
  "stringified ext h h' =
     (\<forall>a. h' a = h a \<or> (showDiff_obj (h a) \<and> h' a = stringifyDiffObjs ext (h a)))"

text \<open>
  \<open>chosen_errs h ts loc fs\<close>: the errors that the queue of \<^verbatim>\<open>list\<close>, started in the
  state \<open>loc\<close>, hands to the entries \<open>fs\<close> in turn.
\<close>

fun chosen_errs ::
  "heap \<Rightarrow> (nat \<Rightarrow> test) \<Rightarrow> nat option \<times> jsval list \<Rightarrow> nat list \<Rightarrow> jsval list" where
  "chosen_errs h ts loc [] = []"
| "chosen_errs h ts loc (t # rest) =
     (case next_err h ts loc t of (err, loc') \<Rightarrow> err # chosen_errs h ts loc' rest)"




section \<open>Speed classification\<close>

text \<open>
  Claim C4. The pass handler sets the speed of a test with slow threshold \<open>T\<close> to slow
  when the duration exceeds \<open>T\<close>, to medium when it does not but exceeds \<open>T / 2\<close>, and
  to fast otherwise; with a threshold of 75 a duration of 100 is slow, 40 is medium and
  10 is fast.
\<close>

theorem on_pass_speed:
  "(test_duration t > test_slow t \<longrightarrow> test_speed (on_pass t) = Some Slow) \<and>
   (test_duration t \<le> test_slow t \<and> real_of_int (test_duration t) > real_of_int (test_slow t) / 2
      \<longrightarrow> test_speed (on_pass t) = Some Medium) \<and>
   (test_duration t \<le> test_slow t \<and> real_of_int (test_duration t) \<le> real_of_int (test_slow t) / 2
      \<longrightarrow> test_speed (on_pass t) = Some Fast) \<and>
   test_speed (on_pass (t\<lparr>test_duration := 100, test_slow := 75\<rparr>)) = Some Slow \<and>
   test_speed (on_pass (t\<lparr>test_duration := 40, test_slow := 75\<rparr>)) = Some Medium \<and>
   test_speed (on_pass (t\<lparr>test_duration := 10, test_slow := 75\<rparr>)) = Some Fast"
  by (simp add: on_pass_def)

theorem on_pass_speed_witness:
  "test_duration example_test \<le> test_slow example_test \<and>
   real_of_int (test_duration example_test) > real_of_int (test_slow example_test) / 2 \<and>
   test_speed (on_pass example_test) = Some Medium"
  using on_pass_speed [of example_test] by (simp add: example_test_def)

section \<open>Flattening of cause chains\<close>

lemma indexOf_Some:
  "indexOf s p = Some i \<Longrightarrow> take (length p) (drop i s) = p \<and> i + length p \<le> length s"
proof (induction s arbitrary: i)
  case Nil
  then show ?case by (simp split: if_splits)
next
  case (Cons c cs)
  show ?case
  proof (cases "take (length p) (c # cs) = p")
    case True
    with Cons.prems have "i = 0" by simp
    moreover have "length p \<le> length (c # cs)"
      using arg_cong [OF True, of length] by simp
    ultimately show ?thesis using True by simp
  next
    case False
    with Cons.prems obtain j where j: "indexOf cs p = Some j" "i = Suc j" by auto
    from Cons.IH [OF j(1)] j(2) show ?thesis by simp
  qed
qed

lemma indexOf_take_append:
  assumes "indexOf s p = Some i"
  shows "take (i + length p) s = take i s @ p"
proof -
  from indexOf_Some [OF assms] have "take (length p) (drop i s) = p" by simp
  then show ?thesis by (simp add: take_add)
qed

text \<open>
  With \<open>N\<close> a finite set of values closed under \<open>cause\<close>, every call on a member of \<open>N\<close>
  returns when the depth allowed is at least the number of members not yet visited.
\<close>

lemma getFullErrorStack_returns:
  assumes fin: "finite N"
    and closed: "\<And>a. Ref a \<in> N \<Longrightarrow> truthy (err_cause (h a)) \<Longrightarrow> err_cause (h a) \<in> N"
  shows "err \<in> N \<Longrightarrow> err \<noteq> Undefined \<Longrightarrow>
         card (N - (case seen of None \<Rightarrow> {} | Some s \<Rightarrow> s)) \<le> depth \<Longrightarrow>
         \<exists>r. getFullErrorStack depth h err seen = Inr r"
proof (induction depth arbitrary: err seen)
  case 0
  let ?S = "case seen of None \<Rightarrow> {} | Some s \<Rightarrow> s"
  from 0 fin have "N - ?S = {}" by simp
  with 0 have "err \<in> ?S" by auto
  then have "seen_has seen err" by (auto simp: seen_has_def split: option.splits)
  then show ?case by (simp add: getFullErrorStack.simps)
next
  case (Suc d)
  let ?S = "case seen of None \<Rightarrow> {} | Some s \<Rightarrow> s"
  show ?case
  proof (cases "seen_has seen err")
    case True
    then show ?thesis by (simp add: getFullErrorStack.simps)
  next
    case False
    then have notin: "err \<notin> ?S" by (auto simp: seen_has_def split: option.splits)
    obtain ob where ob: "props_of h err = Some ob"
      using Suc.prems(2) by (cases err) (auto simp: props_of_def)
    show ?thesis
    proof (cases "truthy (err_cause ob)")
      case nocause: False
      with False ob show ?thesis
        by (simp add: getFullErrorStack.simps Let_def split: option.splits)
    next
      case cause: True
      then obtain a where a: "err = Ref a" "ob = h a"
        using ob by (cases err) (auto simp: props_of_def no_props_def truthy_def)
      have cN: "err_cause ob \<in> N" using closed cause a Suc.prems(1) by simp
      have cU: "err_cause ob \<noteq> Undefined" using cause by (auto simp: truthy_def)
      have "card (N - insert err ?S) < card (N - ?S)"
        using fin Suc.prems(1) notin
        by (intro psubset_card_mono) auto
      with Suc.prems(3)
      have "card (N - (case seen_add seen err of None \<Rightarrow> {} | Some s \<Rightarrow> s)) \<le> d"
        by (simp add: seen_add_def)
      from Suc.IH [OF cN cU this] obtain r where
        "getFullErrorStack d h (err_cause ob) (seen_add seen err) = Inr r" by blast
      with False ob cause show ?thesis
        by (simp add: getFullErrorStack.simps [of "Suc d"] Let_def split: option.splits)
    qed
  qed
qed

lemma getFullErrorStack_circular:
  "c \<in> s \<Longrightarrow> getFullErrorStack depth h c (Some s) =
     Inr \<lparr>fes_message = [], fes_msg = ''<circular>'', fes_stack = []\<rparr>"
  by (simp add: getFullErrorStack.simps seen_has_def)

lemma getFullErrorStack_visited_cause:
  assumes "\<not> seen_has seen (Ref a)"
    and "error_message (h a) \<noteq> []"
    and "indexOf (raw_stack (h a) (error_message (h a))) (error_message (h a)) = Some i"
    and "truthy (err_cause (h a))"
    and "seen_has (seen_add seen (Ref a)) (err_cause (h a))"
  shows "getFullErrorStack (Suc depth) h (Ref a) seen =
     Inr \<lparr>fes_message = error_message (h a),
          fes_msg = take (i + length (error_message (h a)))
                      (raw_stack (h a) (error_message (h a))),
          fes_stack = drop (i + length (error_message (h a)) + 1)
                        (raw_stack (h a) (error_message (h a))) @
             [NL] @ ''   Caused by: <circular>''\<rparr>"
  using assms
  by (simp add: getFullErrorStack.simps [of "Suc depth"] getFullErrorStack.simps [of depth]
        props_of_def Let_def)

lemma getFullErrorStack_not_found:
  assumes "\<not> seen_has seen (Ref a)"
    and "error_message (h a) = [] \<or>
         indexOf (raw_stack (h a) (error_message (h a))) (error_message (h a)) = None"
  shows "getFullErrorStack depth h (Ref a) seen =
     Inr \<lparr>fes_message = error_message (h a), fes_msg = error_message (h a),
          fes_stack = raw_stack (h a) (error_message (h a))\<rparr>"
  using assms by (auto simp: getFullErrorStack.simps [of depth] props_of_def Let_def)

text \<open>
  Claim C1, as amended. For every chain of causes, cyclic or not, with \<open>N\<close> the finite set
  of its nodes: \<open>getFullErrorStack\<close> returns, and needs no more nested calls than \<open>N\<close>
  has members; a value already in the visited set is never recursed into, a call on it
  returns the marker \<open><circular>\<close> with an empty stack at once. An error whose message is
  not empty and occurs in its stack, and whose cause is already visited (itself
  included), gets exactly the one line \<open>Caused by: <circular>\<close> appended, within a single
  nested call. An error whose message is empty or does not occur in its stack has its
  cause neither visited nor rendered: the result holds no marker for it.
\<close>

theorem getFullErrorStack_cycle_safe:
  assumes "finite N" and "err \<in> N" and "err \<noteq> Undefined"
    and "\<forall>a. Ref a \<in> N \<longrightarrow> truthy (err_cause (h a)) \<longrightarrow> err_cause (h a) \<in> N"
  shows "(\<forall>depth. card N \<le> depth \<longrightarrow> (\<exists>r. getFullErrorStack depth h err None = Inr r)) \<and>
         (\<forall>depth c s. c \<in> s \<longrightarrow>
            getFullErrorStack depth h c (Some s) =
              Inr \<lparr>fes_message = [], fes_msg = ''<circular>'', fes_stack = []\<rparr>) \<and>
         (\<forall>depth a seen i.
            \<not> seen_has seen (Ref a) \<and> error_message (h a) \<noteq> [] \<and>
            indexOf (raw_stack (h a) (error_message (h a))) (error_message (h a)) = Some i \<and>
            truthy (err_cause (h a)) \<and> seen_has (seen_add seen (Ref a)) (err_cause (h a)) \<longrightarrow>
            getFullErrorStack (Suc depth) h (Ref a) seen =
              Inr \<lparr>fes_message = error_message (h a),
                   fes_msg = take (i + length (error_message (h a)))
                               (raw_stack (h a) (error_message (h a))),
                   fes_stack = drop (i + length (error_message (h a)) + 1)
                                 (raw_stack (h a) (error_message (h a))) @
                      [NL] @ ''   Caused by: <circular>''\<rparr>) \<and>
         (\<forall>depth a seen.
            \<not> seen_has seen (Ref a) \<and>
            (error_message (h a) = [] \<or>
             indexOf (raw_stack (h a) (error_message (h a))) (error_message (h a)) = None) \<longrightarrow>
            getFullErrorStack depth h (Ref a) seen =
              Inr \<lparr>fes_message = error_message (h a), fes_msg = error_message (h a),
                   fes_stack = raw_stack (h a) (error_message (h a))\<rparr>)"
proof -
  have "\<exists>r. getFullErrorStack depth h err None = Inr r" if "card N \<le> depth" for depth
    using getFullErrorStack_returns [of N h err None depth] assms that by simp
  moreover have "getFullErrorStack depth h c (Some s) =
      Inr \<lparr>fes_message = [], fes_msg = ''<circular>'', fes_stack = []\<rparr>"
    if "c \<in> s" for depth c s
    using that by (rule getFullErrorStack_circular)
  moreover have "getFullErrorStack (Suc depth) h (Ref a) seen =
      Inr \<lparr>fes_message = error_message (h a),
           fes_msg = take (i + length (error_message (h a)))
                       (raw_stack (h a) (error_message (h a))),
           fes_stack = drop (i + length (error_message (h a)) + 1)
                         (raw_stack (h a) (error_message (h a))) @
              [NL] @ ''   Caused by: <circular>''\<rparr>"
    if "\<not> seen_has seen (Ref a) \<and> error_message (h a) \<noteq> [] \<and>
        indexOf (raw_stack (h a) (error_message (h a))) (error_message (h a)) = Some i \<and>
        truthy (err_cause (h a)) \<and> seen_has (seen_add seen (Ref a)) (err_cause (h a))"
    for depth a seen i
    using that by (intro getFullErrorStack_visited_cause) simp_all
  moreover have "getFullErrorStack depth h (Ref a) seen =
      Inr \<lparr>fes_message = error_message (h a), fes_msg = error_message (h a),
           fes_stack = raw_stack (h a) (error_message (h a))\<rparr>"
    if "\<not> seen_has seen (Ref a) \<and>
        (error_message (h a) = [] \<or>
         indexOf (raw_stack (h a) (error_message (h a))) (error_message (h a)) = None)"
    for depth a seen
    using that by (intro getFullErrorStack_not_found) simp_all
  ultimately show ?thesis by (intro conjI allI impI)
qed

theorem getFullErrorStack_cycle_safe_witness:
  "finite {Ref 0, Ref 1} \<and> card {Ref 0, Ref 1} \<le> (2::nat) \<and>
   (\<exists>r. getFullErrorStack 2 example_errs (Ref 0) None = Inr r) \<and>
   getFullErrorStack 2 example_errs (Ref 0) None =
     Inr \<lparr>fes_message = ''boom'', fes_msg = ''Error: boom'',
          fes_stack = ''    at f'' @ [NL] @ ''   Caused by: Error: inner'' @ [NL] @
            ''    at g'' @ [NL] @ ''   Caused by: <circular>''\<rparr> \<and>
   getFullErrorStack 1 example_errs (Ref 3) None =
     Inr \<lparr>fes_message = ''self'', fes_msg = ''self'',
          fes_stack = ''    at s'' @ [NL] @ ''   Caused by: <circular>''\<rparr> \<and>
   getFullErrorStack 0 example_errs (Ref 6) (Some {Ref 5}) =
     Inr \<lparr>fes_message = ''renamed'', fes_msg = ''renamed'',
          fes_stack = ''Error: first'' @ [NL] @ ''    at q''\<rparr>"
proof -
  have closed: "\<forall>a. Ref a \<in> {Ref 0, Ref 1} \<longrightarrow> truthy (err_cause (example_errs a)) \<longrightarrow>
      err_cause (example_errs a) \<in> {Ref 0, Ref 1}"
    by (simp add: example_errs_def no_props_def truthy_def)
  have "\<exists>r. getFullErrorStack 2 example_errs (Ref 0) None = Inr r"
    using getFullErrorStack_cycle_safe [of "{Ref 0, Ref 1}" "Ref 0" example_errs, OF _ _ _ closed]
    by simp
  moreover have "getFullErrorStack 2 example_errs (Ref 0) None =
     Inr \<lparr>fes_message = ''boom'', fes_msg = ''Error: boom'',
          fes_stack = ''    at f'' @ [NL] @ ''   Caused by: Error: inner'' @ [NL] @
            ''    at g'' @ [NL] @ ''   Caused by: <circular>''\<rparr>"
    by code_simp
  moreover have "getFullErrorStack 1 example_errs (Ref 3) None =
     Inr \<lparr>fes_message = ''self'', fes_msg = ''self'',
          fes_stack = ''    at s'' @ [NL] @ ''   Caused by: <circular>''\<rparr>"
    by code_simp
  moreover have "getFullErrorStack 0 example_errs (Ref 6) (Some {Ref 5}) =
     Inr \<lparr>fes_message = ''renamed'', fes_msg = ''renamed'',
          fes_stack = ''Error: first'' @ [NL] @ ''    at q''\<rparr>"
    by code_simp
  ultimately show ?thesis by simp
qed

text \<open>
  The claim as stated fails on the cycle of 5 and 6: when 6 is reached its cause 5 is in
  the visited set, but the message of 6 is not in the stack of 6, so the cause is not
  looked at and the text for the whole chain holds no \<open><circular>\<close> marker.
\<close>

theorem getFullErrorStack_unmarked_cycle_counterexample:
  "err_cause (example_errs 5) = Ref 6 \<and> err_cause (example_errs 6) = Ref 5 \<and>
   getFullErrorStack 2 example_errs (Ref 5) None =
     Inr \<lparr>fes_message = ''outer'', fes_msg = ''Error: outer'',
          fes_stack = ''    at p'' @ [NL] @ ''   Caused by: renamed'' @ [NL] @
            ''Error: first'' @ [NL] @ ''    at q''\<rparr> \<and>
   indexOf (''    at p'' @ [NL] @ ''   Caused by: renamed'' @ [NL] @
            ''Error: first'' @ [NL] @ ''    at q'') ''<circular>'' = None"
proof -
  have "getFullErrorStack 2 example_errs (Ref 5) None =
     Inr \<lparr>fes_message = ''outer'', fes_msg = ''Error: outer'',
          fes_stack = ''    at p'' @ [NL] @ ''   Caused by: renamed'' @ [NL] @
            ''Error: first'' @ [NL] @ ''    at q''\<rparr>"
    by code_simp
  moreover have "indexOf (''    at p'' @ [NL] @ ''   Caused by: renamed'' @ [NL] @
            ''Error: first'' @ [NL] @ ''    at q'') ''<circular>'' = None"
    by code_simp
  ultimately show ?thesis by (simp add: example_errs_def no_props_def)
qed

text \<open>
  Claim C6, as amended. For an error without a cause, with \<open>m\<close> its message and \<open>s\<close> its
  raw stack (\<^verbatim>\<open>err.stack || message\<close>): when \<open>m\<close> is not empty and first occurs in \<open>s\<close> at
  position \<open>i\<close>, \<open>msg\<close> is the stack up to and including that occurrence, and \<open>stack\<close> is
  what follows it less one more character; otherwise \<open>msg\<close> is \<open>m\<close> and \<open>stack\<close> is all of
  \<open>s\<close>. The field \<open>message\<close> is \<open>m\<close> in both cases.
\<close>

theorem getFullErrorStack_without_cause:
  assumes "\<not> truthy (err_cause (h a))"
    and "error_message (h a) = m" and "raw_stack (h a) m = s"
  shows "(m \<noteq> [] \<and> indexOf s m = Some i \<longrightarrow>
            getFullErrorStack depth h (Ref a) None =
              Inr \<lparr>fes_message = m, fes_msg = take i s @ m,
                   fes_stack = drop (i + length m + 1) s\<rparr>) \<and>
         (m = [] \<or> indexOf s m = None \<longrightarrow>
            getFullErrorStack depth h (Ref a) None =
              Inr \<lparr>fes_message = m, fes_msg = m, fes_stack = s\<rparr>)"
  using assms
  by (auto simp: getFullErrorStack.simps [of depth] seen_has_def props_of_def Let_def
        indexOf_take_append)

theorem getFullErrorStack_without_cause_witness:
  "\<not> truthy (err_cause (example_errs 2)) \<and>
   indexOf (''Error: late'' @ [NL] @ ''    at k'') ''late'' = Some 7 \<and>
   getFullErrorStack 4 example_errs (Ref 2) None =
     Inr \<lparr>fes_message = ''late'', fes_msg = ''Error: '' @ ''late'', fes_stack = ''    at k''\<rparr>"
proof -
  have c: "\<not> truthy (err_cause (example_errs 2))"
    by (simp add: example_errs_def no_props_def truthy_def)
  have m: "error_message (example_errs 2) = ''late''"
    by (simp add: example_errs_def no_props_def error_message_def)
  have s: "raw_stack (example_errs 2) ''late'' = ''Error: late'' @ [NL] @ ''    at k''"
    by (simp add: example_errs_def no_props_def raw_stack_def)
  have i: "indexOf (''Error: late'' @ [NL] @ ''    at k'') ''late'' = Some 7"
    by code_simp
  show ?thesis
    using getFullErrorStack_without_cause
            [of example_errs 2 "''late''" "''Error: late'' @ [NL] @ ''    at k''" 7 4] c m s i
    by simp
qed

text \<open>
  The claim as stated fails on an ordinary error: the message \<open>late\<close> occurs in the stack
  \<open>Error: late\<close>, and \<open>msg\<close> is \<open>Error: late\<close>, not the message; the stack that
  remains has lost the line feed after the message as well.
\<close>

theorem getFullErrorStack_msg_counterexample:
  "err_cause (example_errs 2) = Undefined \<and>
   err_message (example_errs 2) = Some ''late'' \<and>
   err_stack (example_errs 2) = Some (''Error: late'' @ [NL] @ ''    at k'') \<and>
   getFullErrorStack 0 example_errs (Ref 2) None =
     Inr \<lparr>fes_message = ''late'', fes_msg = ''Error: late'', fes_stack = ''    at k''\<rparr>"
proof -
  have "getFullErrorStack 0 example_errs (Ref 2) None =
     Inr \<lparr>fes_message = ''late'', fes_msg = ''Error: late'', fes_stack = ''    at k''\<rparr>"
    by code_simp
  then show ?thesis by (simp add: example_errs_def no_props_def)
qed

section \<open>The diff engine\<close>

text \<open>
  Claim C2. With \<open>maxDiffSize = N > 0\<close> and an input longer than \<open>N\<close>, the diff is
  computed on the first \<open>N\<close> characters of each input, and the output is that diff
  followed by the notice that names \<open>N\<close>; with \<open>maxDiffSize = 0\<close> the diff is computed
  on the whole inputs and nothing is appended. Both for a diff computation that
  returns; one that raises is the subject of claim C3.
\<close>

theorem generateDiff_truncation:
  "(0 < maxDiffSize cfg \<and>
    (maxDiffSize cfg < int (length actual) \<or> maxDiffSize cfg < int (length expected)) \<and>
    (if inlineDiffs cfg
     then inlineDiff cfg ext (take (nat (maxDiffSize cfg)) actual) (take (nat (maxDiffSize cfg)) expected)
     else unifiedDiff cfg ext (take (nat (maxDiffSize cfg)) actual) (take (nat (maxDiffSize cfg)) expected))
      = Inr d \<longrightarrow>
    generateDiff cfg ext actual expected =
      Inr (d @ [NL] @ ''      [mocha] output truncated to '' @ number_to_string (maxDiffSize cfg) @
           '' characters, see '' @ [DQ] @ ''maxDiffSize'' @ [DQ] @ '' reporter-option'' @ [NL])) \<and>
   (maxDiffSize cfg = 0 \<and>
    (if inlineDiffs cfg then inlineDiff cfg ext actual expected
     else unifiedDiff cfg ext actual expected) = Inr d \<longrightarrow>
    generateDiff cfg ext actual expected = Inr d)"
  by (auto simp: generateDiff_def generateDiff_try_def truncation_notice_def Let_def)

theorem generateDiff_truncation_witness:
  "0 < maxDiffSize example_cfg \<and> maxDiffSize example_cfg < int (length ''foo'') \<and>
   generateDiff example_cfg example_ext ''foo'' ''bar'' =
     Inr ([NL] @ ''      + expected - actual'' @ [NL, NL] @ ''      -fo'' @ [NL] @
          ''      +ba'' @ [NL] @ ''      '' @ [NL] @
          ''      [mocha] output truncated to 2 characters, see '' @ [DQ] @ ''maxDiffSize'' @
          [DQ] @ '' reporter-option'' @ [NL]) \<and>
   generateDiff (example_cfg\<lparr>maxDiffSize := 0\<rparr>) example_ext ''foo'' ''bar'' =
     Inr ([NL] @ ''      + expected - actual'' @ [NL, NL] @ ''      -foo'' @ [NL] @
          ''      +bar'' @ [NL] @ ''      '')"
proof -
  have cut: "unifiedDiff example_cfg example_ext ''fo'' ''ba'' =
      Inr ([NL] @ ''      + expected - actual'' @ [NL, NL] @ ''      -fo'' @ [NL] @
           ''      +ba'' @ [NL] @ ''      '')"
    by code_simp
  have full: "unifiedDiff (example_cfg\<lparr>maxDiffSize := 0\<rparr>) example_ext ''foo'' ''bar'' =
      Inr ([NL] @ ''      + expected - actual'' @ [NL, NL] @ ''      -foo'' @ [NL] @
           ''      +bar'' @ [NL] @ ''      '')"
    by code_simp
  have two: "number_to_string 2 = ''2''" by code_simp
  have cfg: "maxDiffSize example_cfg = 2" "\<not> inlineDiffs example_cfg"
    by (simp_all add: example_cfg_def)
  from generateDiff_truncation [of example_cfg "''foo''" "''bar''" example_ext
      "[NL] @ ''      + expected - actual'' @ [NL, NL] @ ''      -fo'' @ [NL] @
           ''      +ba'' @ [NL] @ ''      ''"] cut cfg two
  have a: "generateDiff example_cfg example_ext ''foo'' ''bar'' =
     Inr ([NL] @ ''      + expected - actual'' @ [NL, NL] @ ''      -fo'' @ [NL] @
          ''      +ba'' @ [NL] @ ''      '' @ [NL] @
          ''      [mocha] output truncated to 2 characters, see '' @ [DQ] @ ''maxDiffSize'' @
          [DQ] @ '' reporter-option'' @ [NL])"
    by simp
  from generateDiff_truncation [of "example_cfg\<lparr>maxDiffSize := 0\<rparr>" "''foo''" "''bar''"
      example_ext "[NL] @ ''      + expected - actual'' @ [NL, NL] @ ''      -foo'' @ [NL] @
          ''      +bar'' @ [NL] @ ''      ''"] full cfg
  have b: "generateDiff (example_cfg\<lparr>maxDiffSize := 0\<rparr>) example_ext ''foo'' ''bar'' =
     Inr ([NL] @ ''      + expected - actual'' @ [NL, NL] @ ''      -foo'' @ [NL] @
          ''      +bar'' @ [NL] @ ''      '')"
    by simp
  from a b cfg show ?thesis by simp
qed

lemma color_code_diff: "color_code ''diff added'' = ''32''" "color_code ''diff removed'' = ''31''"
  by (simp_all add: color_code_def colors_def)

lemma diff_failed_notice_one_line:
  "\<exists>line. diff_failed_notice cfg = [NL] @ line @ [NL] \<and> NL \<notin> set line"
proof -
  let ?line = "''      '' @ color cfg ''diff added'' ''+ expected'' @ '' '' @
     color cfg ''diff removed'' ''- actual:  failed to generate Mocha diff''"
  have "NL \<notin> set ?line" by (simp add: color_def color_code_diff)
  moreover have "diff_failed_notice cfg = [NL] @ ?line @ [NL]"
    by (simp add: diff_failed_notice_def)
  ultimately show ?thesis by blast
qed

text \<open>
  Claim C3. \<open>generateDiff\<close> never raises: it always returns a string, and when the
  computation inside its \<^verbatim>\<open>try\<close> block raises, the string is the fallback notice, a
  single line between two line feeds.
\<close>

theorem generateDiff_never_raises:
  "(\<exists>s. generateDiff cfg ext actual expected = Inr s) \<and>
   (\<forall>e. generateDiff_try cfg ext actual expected = Inl e \<longrightarrow>
      generateDiff cfg ext actual expected = Inr (diff_failed_notice cfg)) \<and>
   (\<exists>line. diff_failed_notice cfg = [NL] @ line @ [NL] \<and> NL \<notin> set line)"
  using diff_failed_notice_one_line [of cfg]
  by (auto simp: generateDiff_def split: sum.splits)

theorem generateDiff_never_raises_witness:
  "generateDiff_try example_cfg failing_ext ''foo'' ''bar'' = Inl (Thrown ''patch'') \<and>
   generateDiff example_cfg failing_ext ''foo'' ''bar'' =
     Inr ([NL] @ ''      + expected - actual:  failed to generate Mocha diff'' @ [NL])"
proof -
  have t: "generateDiff_try example_cfg failing_ext ''foo'' ''bar'' = Inl (Thrown ''patch'')"
    by code_simp
  have n: "diff_failed_notice example_cfg =
      [NL] @ ''      + expected - actual:  failed to generate Mocha diff'' @ [NL]"
    by code_simp
  from generateDiff_never_raises [of example_cfg failing_ext "''foo''" "''bar''"] t n
  show ?thesis by simp
qed

section \<open>The XUnit root element\<close>

lemma number_to_string_0: "number_to_string 0 = ''0''"
  by code_simp

text \<open>
  Claim C10. The opening tag of the root element has the attribute \<open>failures\<close> with the
  constant 0, the run's count of failures under \<open>errors\<close>, and
  \<open>tests - failures - passes\<close> under \<open>skipped\<close>, each passed through \<^verbatim>\<open>escape\<close>.
\<close>

theorem testsuite_tag_attributes:
  "testsuite_tag ext suiteName st timestamp time =
     ''<testsuite name='' @ [DQ] @ escape ext suiteName @ [DQ] @
     '' tests='' @ [DQ] @ escape ext (number_to_string (st_tests st)) @ [DQ] @
     '' failures='' @ [DQ] @ escape ext ''0'' @ [DQ] @
     '' errors='' @ [DQ] @ escape ext (number_to_string (st_failures st)) @ [DQ] @
     '' skipped='' @ [DQ] @
        escape ext (number_to_string (st_tests st - st_failures st - st_passes st)) @ [DQ] @
     '' timestamp='' @ [DQ] @ escape ext timestamp @ [DQ] @
     '' time='' @ [DQ] @ escape ext time @ [DQ] @ ''>''"
  by (simp add: testsuite_tag_def tag_def arg_to_string_def number_to_string_0)

theorem testsuite_tag_attributes_witness:
  "testsuite_tag example_ext ''Mocha Tests''
     \<lparr>st_tests = 5, st_passes = 2, st_pending = 1, st_failures = 2, st_duration = 1200\<rparr>
     ''Tue, 03 Nov 2026 10:00:00 GMT'' ''1.2'' =
   ''<testsuite name='' @ [DQ] @ ''Mocha Tests'' @ [DQ] @ '' tests='' @ [DQ] @ ''5'' @ [DQ] @
   '' failures='' @ [DQ] @ ''0'' @ [DQ] @ '' errors='' @ [DQ] @ ''2'' @ [DQ] @
   '' skipped='' @ [DQ] @ ''1'' @ [DQ] @
   '' timestamp='' @ [DQ] @ ''Tue, 03 Nov 2026 10:00:00 GMT'' @ [DQ] @
   '' time='' @ [DQ] @ ''1.2'' @ [DQ] @ ''>''"
proof -
  have n: "number_to_string 5 = ''5''" "number_to_string 2 = ''2''" "number_to_string 1 = ''1''"
    by code_simp+
  have e: "escape example_ext = (\<lambda>s. s)" by (simp add: example_ext_def)
  show ?thesis
    using testsuite_tag_attributes [of example_ext "''Mocha Tests''"
      "\<lparr>st_tests = 5, st_passes = 2, st_pending = 1, st_failures = 2, st_duration = 1200\<rparr>"
      "''Tue, 03 Nov 2026 10:00:00 GMT''" "''1.2''"] n e
    by simp
qed

section \<open>The fail handler\<close>

lemma stringifyDiffObjs_fields [simp]:
  "is_Error (stringifyDiffObjs ext ob) = is_Error ob"
  "err_inspect (stringifyDiffObjs ext ob) = err_inspect ob"
  "err_message (stringifyDiffObjs ext ob) = err_message ob"
  "err_stack (stringifyDiffObjs ext ob) = err_stack ob"
  "err_cause (stringifyDiffObjs ext ob) = err_cause ob"
  "err_uncaught (stringifyDiffObjs ext ob) = err_uncaught ob"
  "err_showDiff (stringifyDiffObjs ext ob) = err_showDiff ob"
  "err_multiple (stringifyDiffObjs ext ob) = err_multiple ob"
  by (simp_all add: stringifyDiffObjs_def)

lemma instanceof_Error_stringify_err [simp]:
  "instanceof_Error (stringify_err ext h e) v = instanceof_Error h v"
  by (auto simp: instanceof_Error_def stringify_err_def split: jsval.splits)

lemma err_multiple_stringify_err [simp]:
  "err_multiple (stringify_err ext h e a) = err_multiple (h a)"
  by (auto simp: stringify_err_def split: jsval.splits)

text \<open>
  Claim C5, as amended. On a fail event for a test: when the test holds an error object
  and the reported value is an instance of \<open>Error\<close>, the value is appended at the end of
  that object's \<open>multiple\<close> and the test keeps its error; when the test holds no error or
  the reported value is not an instance of \<open>Error\<close>, the value becomes the test's
  error, whatever the test held before; in both cases the test is appended to
  \<open>failures\<close>.
\<close>

theorem on_fail_effect:
  "(test_err (tests r t) = Ref a \<and> instanceof_Error (errs r) err \<longrightarrow>
      (\<exists>r'. on_fail ext r t err = Inr r' \<and>
            test_err (tests r' t) = Ref a \<and>
            err_multiple (errs r' a) =
              Some ((case err_multiple (errs r a) of None \<Rightarrow> [] | Some m \<Rightarrow> m) @ [err]) \<and>
            failures r' = failures r @ [t])) \<and>
   (\<not> truthy (test_err (tests r t)) \<or> \<not> instanceof_Error (errs r) err \<longrightarrow>
      (\<exists>r'. on_fail ext r t err = Inr r' \<and>
            test_err (tests r' t) = err \<and>
            failures r' = failures r @ [t]))"
  by (auto simp: on_fail_def Let_def truthy_def)

theorem on_fail_effect_witness:
  "test_err (tests failed_once 0) = Ref 2 \<and> instanceof_Error (errs failed_once) (Ref 0) \<and>
   (\<exists>r'. on_fail example_ext failed_once 0 (Ref 0) = Inr r' \<and>
         test_err (tests r' 0) = Ref 2 \<and>
         err_multiple (errs r' 2) = Some [Ref 0] \<and>
         failures r' = [0, 0])"
proof -
  have f: "test_err (tests failed_once 0) = Ref 2" "instanceof_Error (errs failed_once) (Ref 0)"
    "err_multiple (errs failed_once 2) = None" "failures failed_once = [0]"
    by code_simp+
  from on_fail_effect [of failed_once 0 2 "Ref 0" example_ext] f show ?thesis by simp
qed

text \<open>
  The claim as stated fails where a test that holds a genuine error fails again with a
  value that is not an \<open>Error\<close>: the value replaces the error.
\<close>

theorem on_fail_replaces_error_counterexample:
  "test_err (tests failed_once 0) = Ref 2 \<and> is_Error (errs failed_once 2) \<and>
   \<not> instanceof_Error (errs failed_once) (Prim ''oops'') \<and>
   map_sum id (\<lambda>r. test_err (tests r 0)) (on_fail example_ext failed_once 0 (Prim ''oops'')) =
     Inr (Prim ''oops'')"
  by code_simp

section \<open>The failure listing\<close>







lemma stringifyDiffObjs_strings:
  "err_actual (stringifyDiffObjs ext ob) = DString (string_of (err_actual (stringifyDiffObjs ext ob))) \<and>
   err_expected (stringifyDiffObjs ext ob) =
     DString (string_of (err_expected (stringifyDiffObjs ext ob)))"
  by (auto simp: stringifyDiffObjs_def isString_def string_of_def split: jsdata.splits)

lemma stringifyDiffObjs_idem [simp]:
  "stringifyDiffObjs ext (stringifyDiffObjs ext ob) = stringifyDiffObjs ext ob"
  by (simp add: stringifyDiffObjs_def isString_def)

lemma showDiff_obj_stringifyDiffObjs:
  "showDiff_obj ob \<Longrightarrow> showDiff_obj (stringifyDiffObjs ext ob)"
  by (auto simp: showDiff_obj_def stringifyDiffObjs_def sameType_def type_tag_def)

lemma stringified_refl: "stringified ext h h"
  by (simp add: stringified_def)

lemma stringified_trans:
  assumes "stringified ext h h1" and "stringified ext h1 h2"
  shows "stringified ext h h2"
  unfolding stringified_def
proof
  fix a
  from assms have 1: "h1 a = h a \<or> (showDiff_obj (h a) \<and> h1 a = stringifyDiffObjs ext (h a))"
    and 2: "h2 a = h1 a \<or> (showDiff_obj (h1 a) \<and> h2 a = stringifyDiffObjs ext (h1 a))"
    by (simp_all add: stringified_def)
  then show "h2 a = h a \<or> (showDiff_obj (h a) \<and> h2 a = stringifyDiffObjs ext (h a))"
    by auto
qed

lemma stringified_fields:
  assumes "stringified ext h h'"
  shows "err_inspect (h' a) = err_inspect (h a)" "err_message (h' a) = err_message (h a)"
    "err_stack (h' a) = err_stack (h a)" "err_cause (h' a) = err_cause (h a)"
    "err_uncaught (h' a) = err_uncaught (h a)" "err_multiple (h' a) = err_multiple (h a)"
    "showDiff_obj (h' a) = showDiff_obj (h a)"
    "showDiff_obj (h a) \<Longrightarrow> stringifyDiffObjs ext (h' a) = stringifyDiffObjs ext (h a)"
proof -
  from assms have "h' a = h a \<or> (showDiff_obj (h a) \<and> h' a = stringifyDiffObjs ext (h a))"
    by (simp add: stringified_def)
  then show "err_inspect (h' a) = err_inspect (h a)" "err_message (h' a) = err_message (h a)"
    "err_stack (h' a) = err_stack (h a)" "err_cause (h' a) = err_cause (h a)"
    "err_uncaught (h' a) = err_uncaught (h a)" "err_multiple (h' a) = err_multiple (h a)"
    "showDiff_obj (h' a) = showDiff_obj (h a)"
    "showDiff_obj (h a) \<Longrightarrow> stringifyDiffObjs ext (h' a) = stringifyDiffObjs ext (h a)"
    by (auto simp: showDiff_obj_stringifyDiffObjs)
qed

lemma getFullErrorStack_stringified:
  assumes "stringified ext h h'"
  shows "getFullErrorStack depth h' err seen = getFullErrorStack depth h err seen"
proof -
  have m: "error_message (h' a) = error_message (h a)" for a
    by (simp add: error_message_def stringified_fields [OF assms] cong: option.case_cong)
  have s: "raw_stack (h' a) msg = raw_stack (h a) msg" for a msg
    by (simp add: raw_stack_def stringified_fields [OF assms])
  have c: "err_cause (h' a) = err_cause (h a)" for a
    by (simp add: stringified_fields [OF assms])
  show ?thesis
  proof (induction depth arbitrary: err seen)
    case 0
    show ?case
      by (cases err)
         (simp_all add: getFullErrorStack.simps [of 0] props_of_def m s c Let_def
            split: option.splits)
  next
    case (Suc d)
    show ?case
      by (cases err)
         (simp_all add: getFullErrorStack.simps [of "Suc d"] props_of_def m s c Suc.IH Let_def
            split: option.splits)
  qed
qed

lemma showDiff_Ref: "showDiff h err \<Longrightarrow> \<exists>a. err = Ref a \<and> showDiff_obj (h a)"
  by (cases err) (auto simp: showDiff_def showDiff_obj_def no_props_def)

lemma showDiff_stringified:
  "stringified ext h h' \<Longrightarrow> showDiff h' err = showDiff h err"
  by (cases err) (simp_all add: showDiff_def stringified_fields)

lemma uncaught_of_stringified:
  "stringified ext h h' \<Longrightarrow> uncaught_of h' err = uncaught_of h err"
  by (cases err) (simp_all add: uncaught_of_def props_of_def stringified_fields)

lemma next_err_stringified:
  "stringified ext h h' \<Longrightarrow> next_err h' ts loc t = next_err h ts loc t"
  by (cases "test_err (ts t)")
     (simp_all add: next_err_def props_of_def stringified_fields Let_def
        cong: option.case_cong if_cong)

lemma stringified_step:
  assumes "stringified ext h h'" and "showDiff_obj (h a)"
  shows "stringified ext (h(a := stringifyDiffObjs ext (h a))) (h'(a := stringifyDiffObjs ext (h a)))"
  using assms by (simp add: stringified_def)

lemma stringified_self_step:
  assumes "showDiff_obj (h a)"
  shows "stringified ext h (h(a := stringifyDiffObjs ext (h a)))"
  using assms by (simp add: stringified_def)

lemma render_failure_stringified:
  assumes R: "stringified ext h h'"
  shows "(\<forall>e. render_failure cfg ext h test i err = Inl e \<longrightarrow>
            render_failure cfg ext h' test i err = Inl e) \<and>
         (\<forall>call h1. render_failure cfg ext h test i err = Inr (call, h1) \<longrightarrow>
            stringified ext h h1 \<and>
            (\<exists>h1'. render_failure cfg ext h' test i err = Inr (call, h1') \<and>
                   stringified ext h1 h1'))"
proof (cases "\<exists>hideDiff. exports_hideDiff cfg = Some hideDiff \<and> \<not> hideDiff \<and> showDiff h err")
  case False
  then have "\<not> (\<exists>hideDiff. exports_hideDiff cfg = Some hideDiff \<and> \<not> hideDiff \<and> showDiff h' err)"
    by (simp add: showDiff_stringified [OF R])
  with False R show ?thesis
    by (auto simp: render_failure_def Let_def getFullErrorStack_stringified [OF R]
          uncaught_of_stringified [OF R] stringified_refl split: sum.splits option.splits)
next
  case True
  then obtain a where a: "err = Ref a" "showDiff_obj (h a)" using showDiff_Ref by blast
  from True have s': "exports_hideDiff cfg = Some False \<and> showDiff h' err"
    by (auto simp: showDiff_stringified [OF R])
  have p: "props_of (stringify_err ext h err) err = Some (stringifyDiffObjs ext (h a))"
    "props_of (stringify_err ext h' err) err = Some (stringifyDiffObjs ext (h a))"
    using a by (simp_all add: props_of_def stringify_err_def stringified_fields [OF R])
  have st: "stringify_err ext h err = h(a := stringifyDiffObjs ext (h a))"
    "stringify_err ext h' err = h'(a := stringifyDiffObjs ext (h a))"
    using a by (simp_all add: stringify_err_def stringified_fields [OF R])
  have rel: "stringified ext (stringify_err ext h err) (stringify_err ext h' err)"
    "stringified ext h (stringify_err ext h err)"
    using st stringified_step [of ext h h' a] stringified_self_step [of h a ext] R a(2)
    by simp_all
  from True s' p rel show ?thesis
    by (auto simp: render_failure_def Let_def getFullErrorStack_stringified [OF R]
          uncaught_of_stringified [OF R] split: sum.splits)
qed

lemma list_loop_stringified:
  "stringified ext h h' \<Longrightarrow> list_loop cfg ext ts fs i loc h = (out, x, hf) \<Longrightarrow>
   stringified ext h hf \<and>
   (\<exists>hf'. list_loop cfg ext ts fs i loc h' = (out, x, hf'))"
proof (induction fs arbitrary: i loc h h' out x hf)
  case Nil
  then show ?case by (simp add: stringified_refl)
next
  case (Cons t rest)
  obtain err loc' where n: "next_err h ts loc t = (err, loc')" by (cases "next_err h ts loc t")
  then have n': "next_err h' ts loc t = (err, loc')"
    by (simp add: next_err_stringified [OF Cons.prems(1)])
  note rf = render_failure_stringified [OF Cons.prems(1), of cfg "ts t" i err]
  show ?case
  proof (cases "render_failure cfg ext h (ts t) i err")
    case (Inl e)
    with rf have "render_failure cfg ext h' (ts t) i err = Inl e" by blast
    with Inl Cons.prems(2) n n' show ?thesis by (auto simp: stringified_refl)
  next
    case (Inr p)
    obtain call h1 where p: "p = (call, h1)" by (cases p)
    with Inr rf obtain h1' where h1':
      "render_failure cfg ext h' (ts t) i err = Inr (call, h1')"
      "stringified ext h1 h1'" "stringified ext h h1" by blast
    obtain out1 x1 hf1 where r: "list_loop cfg ext ts rest (i + 1) loc' h1 = (out1, x1, hf1)"
      by (cases "list_loop cfg ext ts rest (i + 1) loc' h1")
    from Cons.IH [OF h1'(2) r] obtain hf1' where
      ih: "stringified ext h1 hf1" "list_loop cfg ext ts rest (i + 1) loc' h1' = (out1, x1, hf1')"
      by blast
    from Cons.prems(2) n Inr p r have o: "out = call # out1" "x = x1" "hf = hf1" by simp_all
    from stringified_trans [OF h1'(3) ih(1)] o n' h1'(1) ih(2) show ?thesis by simp
  qed
qed





text \<open>
  Two more listings on a host that binds \<^verbatim>\<open>exports\<close>. For tests that failed in turn
  the queue is rebuilt at every entry, and each entry prints the primary error of its
  test. For the test whose error was overwritten the queue holds two errors for three
  entries: the third is handed undefined and the listing ends with \<open>TypeError\<close> after
  two blocks.
\<close>

lemma list_failures_interleaved_example:
  "failures interleaved = [0, 1, 0, 1] \<and>
   chosen_errs (errs interleaved) (tests interleaved) (None, []) (failures interleaved) =
     [Ref 2, Ref 3, Ref 2, Ref 3] \<and>
   map (\<lambda>call. (call ! 1, call ! 3))
     (tl (fst (list_failures hosted_cfg example_ext (tests interleaved) (failures interleaved)
                 (errs interleaved)))) =
     [(Num 1, Str ''Error: late''), (Num 2, Str ''self''),
      (Num 3, Str ''Error: late''), (Num 4, Str ''self'')]"
  by code_simp

lemma list_failures_exhausted_example:
  "failures overwritten = [0, 0, 0] \<and> test_err (tests overwritten 0) = Ref 7 \<and>
   err_multiple (errs overwritten 7) = Some [Ref 0] \<and>
   chosen_errs (errs overwritten) (tests overwritten) (None, []) (failures overwritten) =
     [Ref 7, Ref 0, Undefined] \<and>
   map (\<lambda>call. (call ! 1, call ! 3))
     (tl (fst (list_failures hosted_cfg example_ext (tests overwritten) (failures overwritten)
                 (errs overwritten)))) =
     [(Num 1, Str ''plain''), (Num 2, Str ''Error: boom'')] \<and>
   fst (snd (list_failures hosted_cfg example_ext (tests overwritten) (failures overwritten)
               (errs overwritten))) = Some TypeError"
  by code_simp

section \<open>The epilogue\<close>

text \<open>
  Claim C8. The epilogue printed a second time, on the statistics and failures of the
  first time and the store the first time left, makes the same calls of
  \<^verbatim>\<open>consoleLog\<close> and ends the same way.
\<close>

theorem epilogue_idempotent:
  "fst (epilogue cfg ext st (r\<lparr>errs := snd (snd (epilogue cfg ext st r))\<rparr>)) =
     fst (epilogue cfg ext st r) \<and>
   fst (snd (epilogue cfg ext st (r\<lparr>errs := snd (snd (epilogue cfg ext st r))\<rparr>))) =
     fst (snd (epilogue cfg ext st r))"
proof (cases "st_failures st = 0")
  case True
  then show ?thesis by (simp add: epilogue_def Let_def)
next
  case False
  obtain out x hf where l: "list_loop cfg ext (tests r) (failures r) 0 (None, []) (errs r) = (out, x, hf)"
    by (cases "list_loop cfg ext (tests r) (failures r) 0 (None, []) (errs r)")
  from list_loop_stringified [OF stringified_refl l] have rel: "stringified ext (errs r) hf"
    by simp
  from list_loop_stringified [OF rel l] obtain hf' where
    l': "list_loop cfg ext (tests r) (failures r) 0 (None, []) hf = (out, x, hf')" by blast
  from False l l' show ?thesis
    by (simp add: epilogue_def list_failures_def Let_def)
qed

theorem epilogue_idempotent_witness:
  "fst (epilogue example_cfg example_ext example_stats diff_reporter) =
     [[], [Str ''  %d passing (%s)'', Num 2, Str ''130ms''], [Str ''  %d failing'', Num 1], []] \<and>
   fst (snd (epilogue example_cfg example_ext example_stats diff_reporter)) =
     Some ReferenceError \<and>
   fst (epilogue example_cfg example_ext example_stats
          (diff_reporter\<lparr>errs :=
             snd (snd (epilogue example_cfg example_ext example_stats diff_reporter))\<rparr>)) =
     [[], [Str ''  %d passing (%s)'', Num 2, Str ''130ms''], [Str ''  %d failing'', Num 1], []] \<and>
   fst (snd (epilogue example_cfg example_ext example_stats
          (diff_reporter\<lparr>errs :=
             snd (snd (epilogue example_cfg example_ext example_stats diff_reporter))\<rparr>))) =
     Some ReferenceError"
proof -
  have "fst (epilogue example_cfg example_ext example_stats diff_reporter) =
     [[], [Str ''  %d passing (%s)'', Num 2, Str ''130ms''], [Str ''  %d failing'', Num 1], []]"
    by code_simp
  moreover have "fst (snd (epilogue example_cfg example_ext example_stats diff_reporter)) =
     Some ReferenceError"
    by code_simp
  ultimately show ?thesis
    using epilogue_idempotent [of example_cfg example_ext example_stats diff_reporter] by simp
qed

section \<open>The circular-reference cleaner\<close>










end
